theory Spec2Isabelle
  imports Main
begin

section \<open>Values of the request\<close>

text \<open>
  The controllers of \<^verbatim>\<open>controllers/bootcamps.js\<close> are embedded function by function.
  A JavaScript string is the list of its code units, those below 256. JavaScript numbers
  are modelled as unbounded integers: \<^verbatim>\<open>parseInt\<close> yields integral values, and
  sums and products of integers are exact in the runtime as long as they stay below
  \<open>2^53\<close> in absolute value.

  A value of \<^verbatim>\<open>req.query\<close> is a string, an array or a nested object (the query
  string \<^verbatim>\<open>averageCost[gte]=1000\<close> arrives as
  \<^verbatim>\<open>{ averageCost: { gte: '1000' } }\<close>). An object is the list of its properties
  in enumeration order; \<^verbatim>\<open>undefined\<close> is \<open>None\<close>.
\<close>

datatype qval = QStr string | QArr "qval list" | QObj "(string \<times> qval) list"

text \<open>\<^verbatim>\<open>Array.prototype.join\<close> and \<^verbatim>\<open>String.prototype.split\<close> with a separator of
  one character.\<close>

fun join :: "string \<Rightarrow> string list \<Rightarrow> string" where
  "join sep [] = []"
| "join sep [x] = x"
| "join sep (x # y # ys) = x @ sep @ join sep (y # ys)"

fun split :: "char \<Rightarrow> string \<Rightarrow> string list" where
  "split sep [] = [[]]"
| "split sep (c # cs) =
     (if c = sep then [] # split sep cs
      else (case split sep cs of [] \<Rightarrow> [[c]] | x # xs \<Rightarrow> (c # x) # xs))"

text \<open>The conversion to a string that \<^verbatim>\<open>parseInt\<close> applies to its argument: a
  string is itself, an array is its elements joined by commas, an object is
  \<^verbatim>\<open>[object Object]\<close>.\<close>

fun ToString :: "qval \<Rightarrow> string" where
  "ToString (QStr s) = s"
| "ToString (QArr xs) = join '','' (map ToString xs)"
| "ToString (QObj kvs) = ''[object Object]''"

definition is_white :: "char \<Rightarrow> bool" where
  "is_white c = ((of_char c :: nat) \<in> {9, 10, 11, 12, 13, 32, 160})"

definition is_digit :: "char \<Rightarrow> bool" where
  "is_digit c = (48 \<le> (of_char c :: nat) \<and> (of_char c :: nat) \<le> 57)"

definition digit_val :: "char \<Rightarrow> int" where
  "digit_val c = int (of_char c) - 48"

definition digits_value :: "string \<Rightarrow> int" where
  "digits_value Z = foldl (\<lambda>a c. 10 * a + digit_val c) 0 Z"

text \<open>
  \<^verbatim>\<open>parseInt(x, 10)\<close>: leading white space is skipped, one sign is read, and the
  longest prefix of decimal digits is the value; with no digit the result is
  \<^verbatim>\<open>NaN\<close>, here \<open>None\<close>. The white space of the language below 256 is tab,
  line feed, vertical tab, form feed, carriage return, space and the no-break space.
\<close>

definition input_string :: "qval option \<Rightarrow> string" where
  "input_string x = (case x of None \<Rightarrow> ''undefined'' | Some v \<Rightarrow> ToString v)"

definition parseInt :: "qval option \<Rightarrow> int option" where
  "parseInt x =
     (let inputString = input_string x;
          S = dropWhile is_white inputString;
          sign = (case S of c # _ \<Rightarrow> if c = CHR ''-'' then - 1 else 1 | [] \<Rightarrow> (1::int));
          S' = (case S of c # cs \<Rightarrow> if c = CHR ''+'' \<or> c = CHR ''-'' then cs else S
                | [] \<Rightarrow> S);
          Z = takeWhile is_digit S'
      in if Z = [] then None else Some (sign * digits_value Z))"



text \<open>
  For the statements below: the magnitude of an input is the value of its run of decimal
  digits after white space and one optional sign, and \<open>decimal n\<close> is the decimal
  numeral of a natural number.
\<close>

definition magnitude :: "string \<Rightarrow> int" where
  "magnitude s =
     digits_value (takeWhile is_digit
       (case dropWhile is_white s of
          [] \<Rightarrow> []
        | c # cs \<Rightarrow> if c = CHR ''+'' \<or> c = CHR ''-'' then cs else c # cs))"



text \<open>\<^verbatim>\<open>x || d\<close> on a number: \<^verbatim>\<open>NaN\<close> and zero are falsy.\<close>

definition or_default :: "int option \<Rightarrow> int \<Rightarrow> int" where
  "or_default x d = (case x of None \<Rightarrow> d | Some n \<Rightarrow> if n = 0 then d else n)"

section \<open>The list endpoint before refactoring\<close>

text \<open>
  \<^verbatim>\<open>exports.getBootcamps\<close> now sends \<^verbatim>\<open>res.advancedResults\<close>, which a middleware
  outside the controller computes. The controller keeps the endpoint as it was before
  that refactoring, commented out under the heading "Get all Bootcamps becore
  refactoring": that block is the code embedded in this section.
\<close>

subsection \<open>Pagination\<close>

text \<open>The objects \<^verbatim>\<open>{ page, limit }\<close> stored under \<^verbatim>\<open>pagination.next\<close> and
  \<^verbatim>\<open>pagination.prev\<close>; an absent property is \<open>None\<close>.\<close>

record page_ref =
  page :: int
  limit :: int

record pagination =
  "next" :: "page_ref option"
  prev :: "page_ref option"

text \<open>
  \<^verbatim>\<open>
  const page = parseInt(req.query.page, 10) || 1;
  const limit = parseInt(req.query.limit, 10) || 25;
  const startIndex = (page - 1) * limit;
  const endIndex = page * limit;
  \<close>
\<close>

definition parse_page :: "(string \<times> qval) list \<Rightarrow> int" where
  "parse_page query = or_default (parseInt (map_of query ''page'')) 1"

definition parse_limit :: "(string \<times> qval) list \<Rightarrow> int" where
  "parse_limit query = or_default (parseInt (map_of query ''limit'')) 25"

definition startIndex :: "int \<Rightarrow> int \<Rightarrow> int" where
  "startIndex pg lim = (pg - 1) * lim"

definition endIndex :: "int \<Rightarrow> int \<Rightarrow> int" where
  "endIndex pg lim = pg * lim"

text \<open>
  \<^verbatim>\<open>
  const pagination = {}
  if (endIndex < total) { pagination.next = { page: page + 1, limit }; };
  if (startIndex > 0)   { pagination.prev = { page: page - 1, limit }; };
  \<close>
\<close>

definition build_pagination :: "int \<Rightarrow> int \<Rightarrow> int \<Rightarrow> pagination" where
  "build_pagination pg lim tot =
     \<lparr> next = (if endIndex pg lim < tot
                then Some \<lparr> page = pg + 1, limit = lim \<rparr> else None),
       prev = (if startIndex pg lim > 0
                then Some \<lparr> page = pg - 1, limit = lim \<rparr> else None) \<rparr>"

subsection \<open>The filter\<close>

text \<open>
  \<^verbatim>\<open>JSON.stringify\<close> on the values of a query. A string is quoted: the quote and the
  backslash are escaped, a control character has its short escape or
  \<^verbatim>\<open>\u00XX\<close>.
\<close>

definition hex_digit :: "nat \<Rightarrow> char" where
  "hex_digit n = (if n < 10 then char_of (48 + n) else char_of (87 + n))"

definition escape_char :: "char \<Rightarrow> string" where
  "escape_char c =
     (let n = (of_char c :: nat) in
      if n = 8 then [CHR 0x5C, CHR ''b''] else if n = 9 then [CHR 0x5C, CHR ''t'']
      else if n = 10 then [CHR 0x5C, CHR ''n''] else if n = 12 then [CHR 0x5C, CHR ''f'']
      else if n = 13 then [CHR 0x5C, CHR ''r'']
      else if n = 34 then [CHR 0x5C, CHR 0x22] else if n = 92 then [CHR 0x5C, CHR 0x5C]
      else if n < 32 then [CHR 0x5C, CHR ''u'', CHR ''0'', CHR ''0'',
                          hex_digit (n div 16), hex_digit (n mod 16)]
      else [c])"

definition JSON_quote :: "string \<Rightarrow> string" where
  "JSON_quote s = [CHR 0x22] @ concat (map escape_char s) @ [CHR 0x22]"

fun JSON_stringify :: "qval \<Rightarrow> string" where
  "JSON_stringify (QStr s) = JSON_quote s"
| "JSON_stringify (QArr xs) = ''['' @ join '','' (map JSON_stringify xs) @ '']''"
| "JSON_stringify (QObj kvs) =
     ''{'' @ join '','' (map (\<lambda>(k, v). JSON_quote k @ '':'' @ JSON_stringify v) kvs) @ ''}''"

text \<open>
  \<^verbatim>\<open>
  const removeFields = ['select', 'sort', 'page', 'limit'];
  removeFields.forEach(param => delete reqQuery[param]);
  \<close>
\<close>

definition removeFields :: "string list" where
  "removeFields = [''select'', ''sort'', ''page'', ''limit'']"

definition reqQuery :: "(string \<times> qval) list \<Rightarrow> (string \<times> qval) list" where
  "reqQuery query = filter (\<lambda>(k, v). k \<notin> set removeFields) query"

text \<open>
  \<^verbatim>\<open>queryStr.replace(/\b(gt|gte|lt|lte|in)\b/g, match => `$${match}`)\<close>.
  A word character is a letter, a digit or the underscore. At a position whose previous
  character is not a word character (\<open>bnd\<close>; the start of the string counts), the
  alternatives are tried in their order, each followed by the second \<^verbatim>\<open>\b\<close>:
  the end of the string or a character that is not a word character. A match is copied
  behind a dollar sign and the scan goes on after it; elsewhere one character is copied.
\<close>

definition is_word :: "char \<Rightarrow> bool" where
  "is_word c = (let n = (of_char c :: nat) in
      (48 \<le> n \<and> n \<le> 57) \<or> (65 \<le> n \<and> n \<le> 90) \<or> (97 \<le> n \<and> n \<le> 122) \<or> n = 95)"

definition operators :: "string list" where
  "operators = [''gt'', ''gte'', ''lt'', ''lte'', ''in'']"

definition word_end :: "string \<Rightarrow> bool" where
  "word_end rest = (case rest of [] \<Rightarrow> True | d # _ \<Rightarrow> \<not> is_word d)"

definition op_match :: "string \<Rightarrow> string option" where
  "op_match s =
     find (\<lambda>w. take (length w) s = w \<and> word_end (drop (length w) s)) operators"

function replace_ops :: "bool \<Rightarrow> string \<Rightarrow> string" where
  "replace_ops bnd [] = []"
| "replace_ops bnd (c # cs) =
     (case (if bnd then op_match (c # cs) else None) of
        Some w \<Rightarrow> ''$'' @ w @ replace_ops False (drop (length w) (c # cs))
      | None \<Rightarrow> c # replace_ops (\<not> is_word c) cs)"
  by pat_completeness auto
termination
  by (relation "measure (\<lambda>(bnd, s). length s)")
     (auto simp: op_match_def operators_def split: if_splits)

text \<open>
  \<^verbatim>\<open>
  let queryStr = JSON.stringify(reqQuery);
  queryStr = queryStr.replace(...)
  query = Bootcamp.find(JSON.parse(queryStr))
  \<close>
  The filter handed to the store is kept as the text that \<^verbatim>\<open>JSON.parse\<close> reads.
\<close>

definition queryStr :: "(string \<times> qval) list \<Rightarrow> string" where
  "queryStr query = replace_ops True (JSON_stringify (QObj (reqQuery query)))"









subsection \<open>Field selection and sorting\<close>

text \<open>
  \<^verbatim>\<open>
  if (req.query.select) {
      const fields = req.query.select.split(',').join(' ');
      query = query.select(fields);
  };
  if (req.query.sort) {
      const sortBy = req.query.sort.split(',').join(' ');
      query = query.sort(sortBy);
  } else {
      query = query.sort('-createdAt');
  };
  \<close>
  The empty string and \<^verbatim>\<open>undefined\<close> are falsy. An array or an object is truthy
  and has no method \<^verbatim>\<open>split\<close>: the call throws a \<^verbatim>\<open>TypeError\<close>.
\<close>

datatype thrown = TypeError | StoreError

definition truthy :: "qval option \<Rightarrow> bool" where
  "truthy x = (case x of None \<Rightarrow> False | Some (QStr s) \<Rightarrow> s \<noteq> [] | Some _ \<Rightarrow> True)"

definition split_join :: "qval option \<Rightarrow> thrown + string" where
  "split_join x =
     (case x of Some (QStr s) \<Rightarrow> Inr (join '' '' (split CHR '','' s)) | _ \<Rightarrow> Inl TypeError)"

definition select_fields :: "(string \<times> qval) list \<Rightarrow> thrown + string option" where
  "select_fields query =
     (if truthy (map_of query ''select'')
      then (case split_join (map_of query ''select'') of
              Inl e \<Rightarrow> Inl e | Inr spec \<Rightarrow> Inr (Some spec))
      else Inr None)"

definition sort_by :: "(string \<times> qval) list \<Rightarrow> thrown + string" where
  "sort_by query =
     (if truthy (map_of query ''sort'')
      then split_join (map_of query ''sort'')
      else Inr ''-createdAt'')"

text \<open>
  Modelled from the spec: the store's reading of a field-selection spec is outside the
  controllers. The spec describes it as a space-delimited field list that restricts the
  returned fields to exactly that set plus the identity field, always included.
\<close>

definition selected_fields :: "string \<Rightarrow> string set" where
  "selected_fields spec = insert ''_id'' (set (filter (\<lambda>f. f \<noteq> []) (split CHR '' '' spec)))"

section \<open>Documents, requests and responses\<close>

text \<open>A JSON value of a request body or of a document.\<close>

datatype json = JNull | JBool bool | JNum int | JStr string
  | JArr "json list" | JObj "(string \<times> json) list"

text \<open>
  A bootcamp document: \<^verbatim>\<open>_id\<close> and \<^verbatim>\<open>user\<close> (the owner) as the strings their
  \<^verbatim>\<open>toString()\<close> gives, \<^verbatim>\<open>photo\<close>, and the other fields.
\<close>

record bootcamp =
  bootcamp_id :: string
  user :: string
  photo :: string
  other_fields :: "(string \<times> json) list"

text \<open>\<^verbatim>\<open>req.user\<close>, the uploaded file, and the request. Nothing assigns
  \<^verbatim>\<open>req.userrole\<close>; it is a property of the request like the others, so that the
  read of it is in the model.\<close>

record requester =
  user_id :: string
  role :: string

record upload =
  file_name :: string
  mimetype :: string
  file_size :: int

record req =
  params_id :: string
  req_user :: requester
  userrole :: "string option"
  body :: "(string \<times> json) list"
  files :: "(string \<times> upload) list option"

text \<open>
  The error \<^verbatim>\<open>new ErrorResponse(message, statusCode)\<close>, the values of a response
  body, and what a handler ends with: \<^verbatim>\<open>res.status(n).json(body)\<close>,
  \<^verbatim>\<open>next(err)\<close>, or an exception (the rejected promise that the wrapper
  \<^verbatim>\<open>asyncHandler\<close> receives).
\<close>

record ErrorResponse =
  message :: string
  statusCode :: nat

datatype rval = RBool bool | RStr string | RNum nat | RDoc bootcamp
  | RDocs "bootcamp list" | RPagination pagination

datatype outcome = Json nat "(string \<times> rval) list" | Next ErrorResponse | Throws thrown

text \<open>
  What is outside the controllers: the environment variables (a variable is a string;
  \<open>MAX_UPLOAD_number\<close> is the number that the comparison
  \<^verbatim>\<open>file.size > process.env.MAX_UPLOAD\<close> converts it to, \<open>None\<close> for
  \<^verbatim>\<open>NaN\<close>), \<^verbatim>\<open>path.parse(name).ext\<close>, whether \<^verbatim>\<open>file.mv\<close> reports an
  error for a destination, and the model's validation in \<^verbatim>\<open>Bootcamp.create\<close> and in
  \<^verbatim>\<open>findByIdAndUpdate\<close> with \<^verbatim>\<open>runValidators\<close>, and the store's projection of a
  document by a projection that is not empty.
\<close>

text \<open>
  The lookup of the photo upload, \<^verbatim>\<open>Bootcamp.findById(req.params.id, req.body)\<close>,
  passes the request body as the projection of the document: what the handler then reads
  are \<^verbatim>\<open>bootcamp._id\<close> (as the template string renders it) and
  \<^verbatim>\<open>bootcamp.user\<close>, which a projection may leave out.
\<close>

record projected =
  proj_id :: string
  proj_user :: "string option"

record runtime =
  MAX_UPLOAD :: string
  MAX_UPLOAD_number :: "int option"
  FILE_UPLOAD_PATH :: string
  path_ext :: "string \<Rightarrow> string"
  mv_err :: "string \<Rightarrow> bool"
  create_doc :: "bootcamp list \<Rightarrow> (string \<times> json) list \<Rightarrow> thrown + bootcamp"
  update_doc :: "bootcamp \<Rightarrow> (string \<times> json) list \<Rightarrow> thrown + bootcamp"
  project :: "(string \<times> json) list \<Rightarrow> bootcamp \<Rightarrow> projected"

text \<open>The state a handler works on: the collection, and the destinations of the calls
  of \<^verbatim>\<open>file.mv\<close> made so far.\<close>

record world =
  bootcamps :: "bootcamp list"
  moves :: "string list"

definition findById :: "bootcamp list \<Rightarrow> string \<Rightarrow> bootcamp option" where
  "findById bs i = find (\<lambda>b. bootcamp_id b = i) bs"

definition findOne_user :: "bootcamp list \<Rightarrow> string \<Rightarrow> bootcamp option" where
  "findOne_user bs u = find (\<lambda>b. user b = u) bs"

definition countDocuments :: "bootcamp list \<Rightarrow> int" where
  "countDocuments bs = int (length bs)"

definition replace_doc :: "string \<Rightarrow> bootcamp \<Rightarrow> bootcamp list \<Rightarrow> bootcamp list" where
  "replace_doc i b' bs = map (\<lambda>b. if bootcamp_id b = i then b' else b) bs"

definition obj_set :: "string \<Rightarrow> json \<Rightarrow> (string \<times> json) list \<Rightarrow> (string \<times> json) list" where
  "obj_set k v kvs =
     (if k \<in> fst ` set kvs then map (\<lambda>(k', v'). if k' = k then (k', v) else (k', v')) kvs
      else kvs @ [(k, v)])"

subsection \<open>The list endpoint, assembled\<close>

text \<open>
  The query that the endpoint builds and awaits: filter, field selection, sort, skip and
  limit. Its execution by the store (\<open>run\<close>, which may reject) is outside the
  controllers. \<^verbatim>\<open>Bootcamp.countDocuments()\<close> is called with no filter.
  \<^verbatim>\<open>
  const total = await Bootcamp.countDocuments();
  query = query.skip(startIndex).limit(limit);
  const bootcamps = await query;
  ...
  res.status(200).json({ success: true, count: bootcamps.length, pagination, data: bootcamps });
  \<close>
\<close>

record query_descriptor =
  find_filter :: string
  select_spec :: "string option"
  sort_spec :: string
  skip_count :: int
  limit_count :: int

definition getBootcamps_ref ::
  "(query_descriptor \<Rightarrow> bootcamp list \<Rightarrow> thrown + bootcamp list) \<Rightarrow> bootcamp list
     \<Rightarrow> (string \<times> qval) list \<Rightarrow> outcome" where
  "getBootcamps_ref run bs query =
     (case select_fields query of
        Inl e \<Rightarrow> Throws e
      | Inr sel \<Rightarrow>
     (case sort_by query of
        Inl e \<Rightarrow> Throws e
      | Inr sortBy \<Rightarrow>
     (let pg = parse_page query;
          lim = parse_limit query;
          tot = countDocuments bs
      in case run \<lparr> find_filter = queryStr query, select_spec = sel, sort_spec = sortBy,
                     skip_count = startIndex pg lim, limit_count = lim \<rparr> bs of
           Inl e \<Rightarrow> Throws e
         | Inr found \<Rightarrow>
             Json 200 [(''success'', RBool True), (''count'', RNum (length found)),
                       (''pagination'', RPagination (build_pagination pg lim tot)),
                       (''data'', RDocs found)])))"

section \<open>The handlers\<close>

text \<open>\<^verbatim>\<open>exports.getBootcamps\<close> as it is now: it sends what the middleware left in
  \<^verbatim>\<open>res.advancedResults\<close>.\<close>

definition getBootcamps :: "(string \<times> rval) list \<Rightarrow> outcome" where
  "getBootcamps advancedResults = Json 200 advancedResults"

definition not_found :: "string \<Rightarrow> ErrorResponse" where
  "not_found i = \<lparr> message = ''Bootcamp not found with id of '' @ i, statusCode = 404 \<rparr>"

definition getBootcamp :: "req \<Rightarrow> world \<Rightarrow> outcome" where
  "getBootcamp r w =
     (case findById (bootcamps w) (params_id r) of
        None \<Rightarrow> Next (not_found (params_id r))
      | Some b \<Rightarrow> Json 200 [(''success'', RBool True), (''data'', RDoc b)])"

text \<open>
  \<^verbatim>\<open>
  req.body.user = req.user.id;
  const publishedBootcamp = await Bootcamp.findOne({ user: req.user.id });
  if (publishedBootcamp && req.user.role !== 'admin') { return next(new ErrorResponse(..., 400)) }
  const bootcamp = await Bootcamp.create(req.body);
  res.status(201).json({ success: true, data: bootcamp });
  \<close>
\<close>

definition createBootcamp :: "runtime \<Rightarrow> req \<Rightarrow> world \<Rightarrow> outcome \<times> world" where
  "createBootcamp rt r w =
     (let body' = obj_set ''user'' (JStr (user_id (req_user r))) (body r);
          publishedBootcamp = findOne_user (bootcamps w) (user_id (req_user r))
      in if publishedBootcamp \<noteq> None \<and> role (req_user r) \<noteq> ''admin''
         then (Next \<lparr> message = ''The user with ID '' @ user_id (req_user r)
                                   @ '' has already published a bootcamp'',
                      statusCode = 400 \<rparr>, w)
         else (case create_doc rt (bootcamps w) body' of
                 Inl e \<Rightarrow> (Throws e, w)
               | Inr b \<Rightarrow> (Json 201 [(''success'', RBool True), (''data'', RDoc b)],
                           w \<lparr> bootcamps := bootcamps w @ [b] \<rparr>)))"

text \<open>
  \<^verbatim>\<open>
  if (bootcamp.user.toString() !== req.user.id && req.userrole !== 'admin') {
      return next(new ErrorResponse(`User ${req.params.id} is not authorized to update this bootcamp`, 401));
  };
  bootcamp = await Bootcamp.findByIdAndUpdate(req.params.id, req.body, { new: true, runValidators: true });
  \<close>
\<close>

definition updateBootcamp :: "runtime \<Rightarrow> req \<Rightarrow> world \<Rightarrow> outcome \<times> world" where
  "updateBootcamp rt r w =
     (case findById (bootcamps w) (params_id r) of
        None \<Rightarrow> (Next (not_found (params_id r)), w)
      | Some b \<Rightarrow>
          if user b \<noteq> user_id (req_user r) \<and> userrole r \<noteq> Some ''admin''
          then (Next \<lparr> message = ''User '' @ params_id r
                                    @ '' is not authorized to update this bootcamp'',
                       statusCode = 401 \<rparr>, w)
          else (case update_doc rt b (body r) of
                  Inl e \<Rightarrow> (Throws e, w)
                | Inr b' \<Rightarrow> (Json 200 [(''success'', RBool True), (''data'', RDoc b')],
                             w \<lparr> bootcamps := replace_doc (params_id r) b' (bootcamps w) \<rparr>)))"

text \<open>
  \<^verbatim>\<open>
  if (bootcamp.user.toString() !== req.user.id && req.user.role !== 'admin') {
      return next(new ErrorResponse(`User ${req.params.id} is not authorized to delete this bootcamp`, 401));
  };
  bootcamp.remove();
  \<close>
\<close>

definition deleteBootcamp :: "req \<Rightarrow> world \<Rightarrow> outcome \<times> world" where
  "deleteBootcamp r w =
     (case findById (bootcamps w) (params_id r) of
        None \<Rightarrow> (Next (not_found (params_id r)), w)
      | Some b \<Rightarrow>
          if user b \<noteq> user_id (req_user r) \<and> role (req_user r) \<noteq> ''admin''
          then (Next \<lparr> message = ''User '' @ params_id r
                                    @ '' is not authorized to delete this bootcamp'',
                       statusCode = 401 \<rparr>, w)
          else (Json 200 [(''success'', RBool True),
                          (''message'', RStr ''The following document has been deleted!''),
                          (''bootcamp'', RDoc b)],
                w \<lparr> bootcamps := filter (\<lambda>x. bootcamp_id x \<noteq> bootcamp_id b) (bootcamps w) \<rparr>))"

text \<open>
  \<^verbatim>\<open>
  const bootcamp = await Bootcamp.findById(req.params.id, req.body);
  if (!bootcamp) {
      new ErrorResponse(`Bootcamp not found with id of ${req.params.id}`, 404);
  };
  if (bootcamp.user.toString() !== req.user.id && req.user.role !== 'admin') { return next(... 401) };
  if (!req.files) { return next(new ErrorResponse(`Please upload a file`, 400)) };
  const file = req.files.file;
  if (!file.mimetype.startsWith('image')) { return next(new ErrorResponse(`Please upload an image file`, 400)) };
  if (file.size > process.env.MAX_UPLOAD) { return next(... 400) };
  file.name = `photo_${bootcamp._id}${path.parse(file.name).ext}`;
  file.mv(`${process.env.FILE_UPLOAD_PATH}/${file.name}`, async err => {
      if (err) { console.error(err); return next(new ErrorResponse(`Problem with file upload!!`, 500)) };
      await Bootcamp.findByIdAndUpdate(req.params.id, { photo: file.name });
      res.status(200).json({ succes: true, data: file.name });
  });
  \<close>
  With no document, the error of the first \<^verbatim>\<open>if\<close> is constructed and dropped, and
  the read of \<^verbatim>\<open>bootcamp.user\<close> on \<^verbatim>\<open>null\<close> throws. An empty projection returns
  the whole document.
\<close>

definition lookup_projected :: "runtime \<Rightarrow> (string \<times> json) list \<Rightarrow> bootcamp \<Rightarrow> projected" where
  "lookup_projected rt projection b =
     (if projection = [] then \<lparr> proj_id = bootcamp_id b, proj_user = Some (user b) \<rparr>
      else project rt projection b)"

definition bootcampPhotoUpload :: "runtime \<Rightarrow> req \<Rightarrow> world \<Rightarrow> outcome \<times> world" where
  "bootcampPhotoUpload rt r w =
     (case findById (bootcamps w) (params_id r) of
        None \<Rightarrow> (Throws TypeError, w)
      | Some b \<Rightarrow>
     (case proj_user (lookup_projected rt (body r) b) of
        None \<Rightarrow> (Throws TypeError, w)
      | Some owner \<Rightarrow>
          if owner \<noteq> user_id (req_user r) \<and> role (req_user r) \<noteq> ''admin''
          then (Next \<lparr> message = ''User '' @ params_id r
                                    @ '' is not authorized to update this bootcamp'',
                       statusCode = 401 \<rparr>, w)
          else
     (case files r of
        None \<Rightarrow> (Next \<lparr> message = ''Please upload a file'', statusCode = 400 \<rparr>, w)
      | Some fs \<Rightarrow>
     (case map_of fs ''file'' of
        None \<Rightarrow> (Throws TypeError, w)
      | Some file \<Rightarrow>
          if take 5 (mimetype file) \<noteq> ''image''
          then (Next \<lparr> message = ''Please upload an image file'', statusCode = 400 \<rparr>, w)
          else if (case MAX_UPLOAD_number rt of None \<Rightarrow> False | Some m \<Rightarrow> file_size file > m)
          then (Next \<lparr> message = ''Please upload an image less than '' @ MAX_UPLOAD rt,
                       statusCode = 400 \<rparr>, w)
          else
            (let name = ''photo_'' @ proj_id (lookup_projected rt (body r) b)
                          @ path_ext rt (file_name file);
                 dest = FILE_UPLOAD_PATH rt @ ''/'' @ name;
                 w' = w \<lparr> moves := moves w @ [dest] \<rparr>
             in if mv_err rt dest
                then (Next \<lparr> message = ''Problem with file upload!!'', statusCode = 500 \<rparr>, w')
                else (Json 200 [(''succes'', RBool True), (''data'', RStr name)],
                      w' \<lparr> bootcamps :=
                             map (\<lambda>x. if bootcamp_id x = params_id r then x \<lparr> photo := name \<rparr>
                                      else x) (bootcamps w') \<rparr>))))))"

section \<open>Sample data\<close>

text \<open>A collection with one bootcamp owned by \<open>u1\<close>, a runtime whose file moves
  succeed, and requests on that bootcamp.\<close>

definition demo_bootcamp :: bootcamp where
  "demo_bootcamp = \<lparr> bootcamp_id = ''b1'', user = ''u1'', photo = ''no-photo.jpg'',
                      other_fields = [(''name'', JStr ''Devworks'')] \<rparr>"

definition demo_world :: world where
  "demo_world = \<lparr> bootcamps = [demo_bootcamp], moves = [] \<rparr>"

definition demo_runtime :: runtime where
  "demo_runtime =
     \<lparr> MAX_UPLOAD = ''1000000'', MAX_UPLOAD_number = Some 1000000,
       FILE_UPLOAD_PATH = ''./public/uploads'',
       path_ext = (\<lambda>n. dropWhile (\<lambda>c. c \<noteq> CHR ''.'') n),
       mv_err = (\<lambda>dest. False),
       create_doc = (\<lambda>bs b. case map_of b ''user'' of
                               Some (JStr u) \<Rightarrow> Inr \<lparr> bootcamp_id = ''b2'', user = u,
                                                     photo = ''no-photo.jpg'', other_fields = b \<rparr>
                             | _ \<Rightarrow> Inl StoreError),
       update_doc = (\<lambda>b upd. Inr (b \<lparr> other_fields := upd \<rparr>)),
       project = (\<lambda>p b. \<lparr> proj_id = bootcamp_id b, proj_user = None \<rparr>) \<rparr>"

definition demo_req :: "string \<Rightarrow> string \<Rightarrow> req" where
  "demo_req uid rl = \<lparr> params_id = ''b1'', req_user = \<lparr> user_id = uid, role = rl \<rparr>,
                       userrole = None, body = [], files = None \<rparr>"

definition demo_upload :: "string \<Rightarrow> string \<Rightarrow> (string \<times> upload) list" where
  "demo_upload n m = [(''file'', \<lparr> file_name = n, mimetype = m, file_size = 2048 \<rparr>)]"

text \<open>A store that reads a filter as an equality on the owner, for the examples of the
  list endpoint, and a collection of two bootcamps with different owners.\<close>

definition owner_filter_run :: "query_descriptor \<Rightarrow> bootcamp list \<Rightarrow> thrown + bootcamp list" where
  \<open>owner_filter_run d bs =
     Inr (take (nat (limit_count d)) (drop (nat (skip_count d))
            (filter (\<lambda>b. find_filter d = ''{"user":"'' @ user b @ ''"}'') bs)))\<close>

definition demo_collection :: "bootcamp list" where
  "demo_collection = [demo_bootcamp, demo_bootcamp \<lparr> bootcamp_id := ''b2'', user := ''u2'' \<rparr>]"


section \<open>Properties of the pagination\<close>

lemma startIndex_pos_iff:
  "1 \<le> pg \<Longrightarrow> 1 \<le> lim \<Longrightarrow> 0 < startIndex pg lim \<longleftrightarrow> 1 < pg"
  by (auto simp: startIndex_def zero_less_mult_iff)

text \<open>
  Claim C1. For every page and limit that are at least 1, and every total, the pagination
  object has a \<^verbatim>\<open>next\<close> property exactly when \<open>page * limit < total\<close>, and then it
  is \<open>{page + 1, limit}\<close>; it has a \<^verbatim>\<open>prev\<close> property exactly when \<open>page > 1\<close>, and
  then it is \<open>{page - 1, limit}\<close>.
\<close>

theorem pagination_next_prev:
  assumes "1 \<le> pg" and "1 \<le> lim"
  shows "(next (build_pagination pg lim tot) \<noteq> None \<longleftrightarrow> pg * lim < tot)
       \<and> (pg * lim < tot \<longrightarrow>
            next (build_pagination pg lim tot) = Some \<lparr> page = pg + 1, limit = lim \<rparr>)
       \<and> (prev (build_pagination pg lim tot) \<noteq> None \<longleftrightarrow> 1 < pg)
       \<and> (1 < pg \<longrightarrow>
            prev (build_pagination pg lim tot) = Some \<lparr> page = pg - 1, limit = lim \<rparr>)"
  using startIndex_pos_iff [OF assms]
  by (simp add: build_pagination_def endIndex_def)

theorem pagination_next_prev_witness:
  "(1::int) \<le> 2 \<and> (1::int) \<le> 10
   \<and> next (build_pagination 2 10 25) = Some \<lparr> page = 3, limit = 10 \<rparr>
   \<and> prev (build_pagination 2 10 25) = Some \<lparr> page = 1, limit = 10 \<rparr>"
  using pagination_next_prev [of 2 10 25] by simp

section \<open>Properties of the parsing of page and limit\<close>

lemma digit_val_nonneg: "is_digit c \<Longrightarrow> 0 \<le> digit_val c"
  by (simp add: is_digit_def digit_val_def)

lemma foldl_digits_nonneg:
  "0 \<le> a \<Longrightarrow> \<forall>c\<in>set Z. is_digit c \<Longrightarrow> 0 \<le> foldl (\<lambda>a c. 10 * a + digit_val c) a Z"
proof (induction Z arbitrary: a)
  case Nil
  then show ?case by simp
next
  case (Cons c Z)
  have "0 \<le> 10 * a + digit_val c"
    using Cons.prems digit_val_nonneg [of c] by simp
  then show ?case using Cons by simp
qed

lemma digits_value_nonneg: "\<forall>c\<in>set Z. is_digit c \<Longrightarrow> 0 \<le> digits_value Z"
  unfolding digits_value_def by (rule foldl_digits_nonneg) simp_all









lemma magnitude_nonneg: "0 \<le> magnitude s"
  unfolding magnitude_def by (rule digits_value_nonneg) (auto dest: set_takeWhileD)
















section \<open>Properties of the list endpoint\<close>

text \<open>
  Claim C3, as the code has it. Whenever the list endpoint answers, the status is 200 and
  the pagination of the body is built from the number of all documents of the collection,
  whatever the filter parameters of the request are.
\<close>

theorem total_counts_collection:
  assumes "getBootcamps_ref run bs q = Json st res"
  shows "st = 200
       \<and> map_of res ''pagination''
           = Some (RPagination (build_pagination (parse_page q) (parse_limit q) (int (length bs))))"
  using assms
  by (auto simp: getBootcamps_ref_def countDocuments_def Let_def split: sum.splits)

lemma queryStr_owner:
  \<open>queryStr [(''user'', QStr ''u1''), (''limit'', QStr ''1'')] = ''{"user":"u1"}''\<close>
  by (simp add: queryStr_def reqQuery_def removeFields_def JSON_quote_def escape_char_def
      op_match_def operators_def word_end_def is_word_def)

text \<open>
  Claim C3 as stated fails. Of two bootcamps one is owned by \<open>u1\<close>. The request
  \<^verbatim>\<open>user=u1&limit=1\<close> has the filter \<^verbatim>\<open>{"user":"u1"}\<close>, which one document
  matches; the answer announces a next page, as for a total of 2, where a total of 1 gives
  none.
\<close>

theorem total_counts_collection_counterexample:
  \<open>queryStr [(''user'', QStr ''u1''), (''limit'', QStr ''1'')] = ''{"user":"u1"}''
   \<and> filter (\<lambda>b. ''{"user":"u1"}'' = ''{"user":"'' @ user b @ ''"}'') demo_collection = [demo_bootcamp]
   \<and> getBootcamps_ref owner_filter_run demo_collection [(''user'', QStr ''u1''), (''limit'', QStr ''1'')]
       = Json 200 [(''success'', RBool True), (''count'', RNum 1),
                   (''pagination'', RPagination \<lparr> next = Some \<lparr> page = 2, limit = 1 \<rparr>, prev = None \<rparr>),
                   (''data'', RDocs [demo_bootcamp])]
   \<and> build_pagination 1 1 (int (length [demo_bootcamp])) = \<lparr> next = None, prev = None \<rparr>\<close>
proof -
  have p: "parse_page [(''user'', QStr ''u1''), (''limit'', QStr ''1'')] = 1"
    by (simp add: parse_page_def or_default_def parseInt_def input_string_def
      is_white_def is_digit_def)
  have l: "parse_limit [(''user'', QStr ''u1''), (''limit'', QStr ''1'')] = 1"
    by (simp add: parse_limit_def or_default_def parseInt_def input_string_def
      is_white_def is_digit_def digits_value_def digit_val_def)
  show ?thesis
    by (simp add: getBootcamps_ref_def queryStr_owner p l select_fields_def sort_by_def
        truthy_def owner_filter_run_def demo_collection_def demo_bootcamp_def
        countDocuments_def build_pagination_def startIndex_def endIndex_def)
qed

theorem total_counts_collection_witness:
  \<open>map_of [(''success'', RBool True), (''count'', RNum 1),
           (''pagination'', RPagination \<lparr> next = Some \<lparr> page = 2, limit = 1 \<rparr>, prev = None \<rparr>),
           (''data'', RDocs [demo_bootcamp])] ''pagination''
     = Some (RPagination (build_pagination
               (parse_page [(''user'', QStr ''u1''), (''limit'', QStr ''1'')])
               (parse_limit [(''user'', QStr ''u1''), (''limit'', QStr ''1'')])
               (int (length demo_collection))))\<close>
proof -
  have p: "parse_page [(''user'', QStr ''u1''), (''limit'', QStr ''1'')] = 1"
    by (simp add: parse_page_def or_default_def parseInt_def input_string_def
      is_white_def is_digit_def)
  have l: "parse_limit [(''user'', QStr ''u1''), (''limit'', QStr ''1'')] = 1"
    by (simp add: parse_limit_def or_default_def parseInt_def input_string_def
      is_white_def is_digit_def digits_value_def digit_val_def)
  have "getBootcamps_ref owner_filter_run demo_collection [(''user'', QStr ''u1''), (''limit'', QStr ''1'')]
       = Json 200 [(''success'', RBool True), (''count'', RNum 1),
                   (''pagination'', RPagination \<lparr> next = Some \<lparr> page = 2, limit = 1 \<rparr>, prev = None \<rparr>),
                   (''data'', RDocs [demo_bootcamp])]"
    by (simp add: getBootcamps_ref_def queryStr_owner p l select_fields_def sort_by_def
        truthy_def owner_filter_run_def demo_collection_def demo_bootcamp_def
        countDocuments_def build_pagination_def startIndex_def endIndex_def)
  from total_counts_collection [OF this] show ?thesis by simp
qed

lemma split_not_Nil: "split sep s \<noteq> []"
  by (induction s) (auto split: list.splits)

lemma join_Cons_head: "join sep ((c # x) # xs) = c # join sep (x # xs)"
  by (cases xs) simp_all

lemma join_Nil_head: "xs \<noteq> [] \<Longrightarrow> join sep ([] # xs) = sep @ join sep xs"
  by (cases xs) simp_all

lemma join_split:
  "join [d] (split sep s) = map (\<lambda>c. if c = sep then d else c) s"
proof (induction s)
  case Nil
  then show ?case by simp
next
  case (Cons c cs)
  show ?case
  proof (cases "c = sep")
    case True
    then show ?thesis using Cons by (simp add: join_Nil_head split_not_Nil)
  next
    case False
    obtain x xs where sp: "split sep cs = x # xs"
      using split_not_Nil [of sep cs] by (cases "split sep cs") auto
    with False Cons show ?thesis by (simp add: join_Cons_head)
  qed
qed

lemma split_map_sep:
  "d \<notin> set s \<Longrightarrow> split d (map (\<lambda>c. if c = sep then d else c) s) = split sep s"
  by (induction s) (auto split: list.splits)

text \<open>
  Claim C5, as the code has it. For a request whose \<^verbatim>\<open>select\<close> is a string that
  is not empty, the field selection is the value split on commas and joined with spaces,
  that is the value with every comma replaced by a space; when the listed fields contain
  no space, the selection read by the store is exactly the listed fields and the identity
  field. With no \<^verbatim>\<open>select\<close> or an empty one, no selection is made. With an array
  or an object the call of \<^verbatim>\<open>split\<close> throws and the request ends with the
  exception.
\<close>

theorem select_fields_spec:
  "(map_of q ''select'' = Some (QStr s) \<and> s \<noteq> [] \<longrightarrow>
      select_fields q = Inr (Some (join '' '' (split CHR '','' s))))
   \<and> join '' '' (split CHR '','' s) = map (\<lambda>c. if c = CHR '','' then CHR '' '' else c) s
   \<and> (CHR '' '' \<notin> set s \<longrightarrow>
        selected_fields (join '' '' (split CHR '','' s))
          = insert ''_id'' {f \<in> set (split CHR '','' s). f \<noteq> []})
   \<and> (map_of q ''select'' = None \<or> map_of q ''select'' = Some (QStr []) \<longrightarrow>
        select_fields q = Inr None)
   \<and> (map_of q ''select'' = Some (QArr xs) \<or> map_of q ''select'' = Some (QObj kvs) \<longrightarrow>
        select_fields q = Inl TypeError \<and> getBootcamps_ref run bs q = Throws TypeError)"
proof -
  have a: "select_fields q = Inr (Some (join '' '' (split CHR '','' s)))"
    if "map_of q ''select'' = Some (QStr s) \<and> s \<noteq> []"
    using that by (simp add: select_fields_def truthy_def split_join_def)
  have b: "join '' '' (split CHR '','' s) = map (\<lambda>c. if c = CHR '','' then CHR '' '' else c) s"
    by (rule join_split)
  have c: "selected_fields (join '' '' (split CHR '','' s))
              = insert ''_id'' {f \<in> set (split CHR '','' s). f \<noteq> []}" if "CHR '' '' \<notin> set s"
    using that by (auto simp: selected_fields_def b split_map_sep)
  have d: "select_fields q = Inr None"
    if "map_of q ''select'' = None \<or> map_of q ''select'' = Some (QStr [])"
    using that by (auto simp: select_fields_def truthy_def)
  have e: "select_fields q = Inl TypeError"
    if "map_of q ''select'' = Some (QArr xs) \<or> map_of q ''select'' = Some (QObj kvs)"
    using that by (auto simp: select_fields_def truthy_def split_join_def)
  have f: "getBootcamps_ref run bs q = Throws TypeError"
    if "map_of q ''select'' = Some (QArr xs) \<or> map_of q ''select'' = Some (QObj kvs)"
    using e [OF that] by (simp add: getBootcamps_ref_def)
  from a b c d e f show ?thesis by blast
qed

theorem select_fields_spec_witness:
  "select_fields [(''select'', QStr ''name,description'')] = Inr (Some ''name description'')
   \<and> selected_fields ''name description'' = {''name'', ''description'', ''_id''}
   \<and> select_fields [(''page'', QStr ''2'')] = Inr None
   \<and> getBootcamps_ref owner_filter_run demo_collection [(''select'', QArr [QStr ''name''])]
       = Throws TypeError"
  using select_fields_spec [of "[(''select'', QStr ''name,description'')]" "''name,description''"]
        select_fields_spec [of "[(''page'', QStr ''2'')]"]
        select_fields_spec [of "[(''select'', QArr [QStr ''name''])]" "[]" "[QStr ''name'']" "[]"
                               owner_filter_run demo_collection]
  by (auto simp: selected_fields_def)

text \<open>
  Claim C5 as stated fails: the request \<^verbatim>\<open>select=\<close> carries the parameter and gets
  no selection, and \<^verbatim>\<open>select[a]=1\<close> ends with a \<^verbatim>\<open>TypeError\<close>.
\<close>

theorem select_fields_spec_counterexample:
  "select_fields [(''select'', QStr '''')] = Inr None
   \<and> select_fields [(''select'', QObj [(''a'', QStr ''1'')])] = Inl TypeError
   \<and> getBootcamps_ref owner_filter_run demo_collection [(''select'', QObj [(''a'', QStr ''1'')])]
       = Throws TypeError"
  by (simp add: select_fields_def truthy_def split_join_def getBootcamps_ref_def)


section \<open>Properties of the filter\<close>





declare replace_ops.simps [simp del]























section \<open>Properties of the handlers\<close>

text \<open>
  Claim C6, at the request the code fails on. The bootcamp \<open>b1\<close> is owned by \<open>u1\<close>; the
  requester \<open>u2\<close> has the role admin. The update handler reads \<^verbatim>\<open>req.userrole\<close>,
  which is undefined, where the delete handler reads \<^verbatim>\<open>req.user.role\<close>: the update
  is refused with status 401, the deletion of the same bootcamp by the same requester is
  answered with status 200.
\<close>

theorem update_rejects_admin:
  "updateBootcamp demo_runtime (demo_req ''u2'' ''admin'') demo_world
     = (Next \<lparr> message = ''User b1 is not authorized to update this bootcamp'',
                statusCode = 401 \<rparr>, demo_world)
   \<and> fst (deleteBootcamp (demo_req ''u2'' ''admin'') demo_world)
     = Json 200 [(''success'', RBool True),
                 (''message'', RStr ''The following document has been deleted!''),
                 (''bootcamp'', RDoc demo_bootcamp)]"
  by (simp add: updateBootcamp_def deleteBootcamp_def demo_req_def demo_world_def
      demo_bootcamp_def findById_def)

text \<open>
  Claim C7, as the code has it. For every photo upload whose file has a mime type that
  does not start with \<open>image\<close>, the handler ends without a call of \<^verbatim>\<open>file.mv\<close> and
  with the collection as it was. When the bootcamp exists and the lookup is not projected
  (the request body has no fields), the answer is the error 401 for a requester who is
  neither the owner nor an admin, and the error 400 "Please upload an image file"
  otherwise.
\<close>

theorem photo_upload_non_image:
  assumes "files r = Some fs" and "map_of fs ''file'' = Some file"
    and "take 5 (mimetype file) \<noteq> ''image''"
  shows "snd (bootcampPhotoUpload rt r w) = w
       \<and> (findById (bootcamps w) (params_id r) = Some b \<and> body r = [] \<longrightarrow>
            fst (bootcampPhotoUpload rt r w)
              = (if user b \<noteq> user_id (req_user r) \<and> role (req_user r) \<noteq> ''admin''
                 then Next \<lparr> message = ''User '' @ params_id r
                                         @ '' is not authorized to update this bootcamp'',
                             statusCode = 401 \<rparr>
                 else Next \<lparr> message = ''Please upload an image file'', statusCode = 400 \<rparr>))"
  using assms
  by (simp add: bootcampPhotoUpload_def lookup_projected_def split: option.splits)

theorem photo_upload_non_image_witness:
  "bootcampPhotoUpload demo_runtime
      ((demo_req ''u1'' ''publisher'')
         \<lparr> files := Some (demo_upload ''cv.pdf'' ''application/pdf'') \<rparr>)
      demo_world
     = (Next \<lparr> message = ''Please upload an image file'', statusCode = 400 \<rparr>, demo_world)"
  using photo_upload_non_image
          [of "(demo_req ''u1'' ''publisher'')
                 \<lparr> files := Some (demo_upload ''cv.pdf'' ''application/pdf'') \<rparr>"
              "demo_upload ''cv.pdf'' ''application/pdf''"
              "\<lparr> file_name = ''cv.pdf'', mimetype = ''application/pdf'', file_size = 2048 \<rparr>"
              demo_runtime demo_world demo_bootcamp]
  by (simp add: demo_req_def demo_world_def demo_bootcamp_def demo_upload_def findById_def
      prod_eq_iff)

text \<open>
  Claim C7 as stated fails: a requester who is neither the owner nor an admin and uploads
  a PDF is answered with 401, not with 400.
\<close>

theorem photo_upload_non_image_counterexample:
  "take 5 ''application/pdf'' \<noteq> ''image''
   \<and> fst (bootcampPhotoUpload demo_runtime
            ((demo_req ''u2'' ''publisher'')
               \<lparr> files := Some (demo_upload ''cv.pdf'' ''application/pdf'') \<rparr>)
            demo_world)
       = Next \<lparr> message = ''User b1 is not authorized to update this bootcamp'',
                 statusCode = 401 \<rparr>"
  by (simp add: bootcampPhotoUpload_def lookup_projected_def demo_req_def demo_world_def
      demo_bootcamp_def demo_upload_def findById_def)

text \<open>
  Claim C8, at the request the code fails on. The owner uploads a PNG of 2048 bytes; the
  move succeeds and the answer has status 200. Its body has the key \<^verbatim>\<open>succes\<close> and
  no key \<^verbatim>\<open>success\<close>.
\<close>

theorem photo_upload_body_without_success:
  "fst (bootcampPhotoUpload demo_runtime
          ((demo_req ''u1'' ''publisher'') \<lparr> files := Some (demo_upload ''logo.png'' ''image/png'') \<rparr>)
          demo_world)
     = Json 200 [(''succes'', RBool True), (''data'', RStr ''photo_b1.png'')]
   \<and> map_of [(''succes'', RBool True), (''data'', RStr ''photo_b1.png'')] ''success'' = None"
  by (simp add: bootcampPhotoUpload_def lookup_projected_def demo_req_def demo_world_def
      demo_bootcamp_def demo_runtime_def demo_upload_def findById_def Let_def)

text \<open>
  Claim C9. In the photo upload, when no bootcamp has the requested id, the handler does
  not end with the 404 error: it goes on to read \<^verbatim>\<open>bootcamp.user\<close> of the absent
  document, which throws.
\<close>

theorem photo_upload_missing_bootcamp:
  assumes "findById (bootcamps w) (params_id r) = None"
  shows "bootcampPhotoUpload rt r w = (Throws TypeError, w)
       \<and> fst (bootcampPhotoUpload rt r w) \<noteq> Next (not_found (params_id r))"
  using assms by (simp add: bootcampPhotoUpload_def)

theorem photo_upload_missing_bootcamp_witness:
  "findById (bootcamps demo_world)
      (params_id ((demo_req ''u1'' ''publisher'') \<lparr> params_id := ''b9'' \<rparr>)) = None
   \<and> bootcampPhotoUpload demo_runtime
        ((demo_req ''u1'' ''publisher'') \<lparr> params_id := ''b9'' \<rparr>) demo_world
       = (Throws TypeError, demo_world)"
  using photo_upload_missing_bootcamp
          [of demo_world "(demo_req ''u1'' ''publisher'') \<lparr> params_id := ''b9'' \<rparr>" demo_runtime]
  by (simp add: demo_req_def demo_world_def demo_bootcamp_def findById_def)

lemma findOne_user_None_iff:
  "findOne_user bs u = None \<longleftrightarrow> (\<forall>b\<in>set bs. user b \<noteq> u)"
  by (auto simp: findOne_user_def find_None_iff)

text \<open>
  Claim C10. A requester whose role is not admin and who owns a bootcamp of the
  collection gets the error 400 on a create request, and the collection is unchanged.
  For a requester with the role admin the ownership check stops nothing, however many
  bootcamps the requester owns: whenever the store accepts the document, the answer is
  201 and the document is added.
\<close>

theorem create_one_per_publisher:
  "(role (req_user r) \<noteq> ''admin'' \<and> (\<exists>b\<in>set (bootcamps w). user b = user_id (req_user r))
      \<longrightarrow> createBootcamp rt r w
            = (Next \<lparr> message = ''The user with ID '' @ user_id (req_user r)
                                   @ '' has already published a bootcamp'',
                      statusCode = 400 \<rparr>, w))
   \<and> (role (req_user r) = ''admin''
        \<and> create_doc rt (bootcamps w)
             (obj_set ''user'' (JStr (user_id (req_user r))) (body r)) = Inr b
      \<longrightarrow> createBootcamp rt r w
            = (Json 201 [(''success'', RBool True), (''data'', RDoc b)],
               w \<lparr> bootcamps := bootcamps w @ [b] \<rparr>))"
  using findOne_user_None_iff [of "bootcamps w" "user_id (req_user r)"]
  by (auto simp: createBootcamp_def Let_def)

theorem create_one_per_publisher_witness:
  "createBootcamp demo_runtime (demo_req ''u1'' ''publisher'') demo_world
     = (Next \<lparr> message = ''The user with ID u1 has already published a bootcamp'',
                statusCode = 400 \<rparr>, demo_world)
   \<and> bootcamps (snd (createBootcamp demo_runtime (demo_req ''u1'' ''admin'') demo_world))
     = [demo_bootcamp,
        \<lparr> bootcamp_id = ''b2'', user = ''u1'', photo = ''no-photo.jpg'',
          other_fields = [(''user'', JStr ''u1'')] \<rparr>]"
  using create_one_per_publisher
          [of "demo_req ''u1'' ''publisher''" demo_world demo_runtime]
        create_one_per_publisher
          [of "demo_req ''u1'' ''admin''" demo_world demo_runtime
              "\<lparr> bootcamp_id = ''b2'', user = ''u1'', photo = ''no-photo.jpg'',
                 other_fields = [(''user'', JStr ''u1'')] \<rparr>"]
  by (simp add: demo_req_def demo_world_def demo_bootcamp_def demo_runtime_def obj_set_def)

end
